theory Spec2Isabelle
  imports Complex_Main "HOL-Library.Log_Nat"
begin

section \<open>Python values\<close>

text \<open>
  The invoice engine is Python over an SQLite catalog. Python's unbounded \<open>int\<close> is
  \<^typ>\<open>int\<close>. A Python \<open>str\<close> is a \<^typ>\<open>string\<close> holding its UTF-8 bytes; the template
  delimiters and identifier characters are ASCII, so scanning bytes and scanning code
  points agree. A nullable column is an \<open>option\<close>, \<open>None\<close> for SQL \<open>NULL\<close>. The
  exceptions that the modelled code can raise are values of \<open>py_exception\<close>, and a function
  that can raise returns a sum with the exception on the left.
\<close>

datatype py_exception = ValueError | OverflowError

subsection \<open>Floats: IEEE 754 binary64\<close>

text \<open>
  A Python \<open>float\<close> is a binary64 number: a finite value, an infinity or a NaN. A finite
  value is given by the real number it denotes; zero carries no sign, as nothing the
  modelled code returns depends on the sign of a zero (\<open>-0.0\<close> is falsy, is not greater
  than zero, and \<open>int(-0.0)\<close> is \<open>0\<close>).
\<close>

datatype float64 = Finite real | Pos_inf | Neg_inf | NaN

text \<open>The exponent \<open>e\<close> of a non-zero real: \<open>2^e \<le> |x| < 2^(e+1)\<close>.\<close>

definition binary_exponent :: "real \<Rightarrow> int" where
  "binary_exponent x =
     (let a = \<bar>x\<bar>
      in if 1 \<le> a then bitlen \<lfloor>a\<rfloor> - 1
         else (let k = bitlen \<lfloor>1 / a\<rfloor> - 1
               in if a = 2 powi (- k) then - k else - k - 1))"

text \<open>Rounding to the nearest integer, a tie going to the even one.\<close>

definition round_half_even :: "real \<Rightarrow> int" where
  "round_half_even x =
     (let n = \<lfloor>x\<rfloor>; d = x - of_int n
      in if d < 1 / 2 then n
         else if 1 / 2 < d then n + 1
         else if even n then n else n + 1)"

text \<open>
  Rounding a real to binary64, to nearest with ties to even: 53 significant bits, the
  least exponent \<open>-1022\<close> (below it the spacing stays \<open>2^-1074\<close>: subnormal numbers), and
  an infinity when the rounded value reaches \<open>2^1024\<close>.
\<close>

definition round64 :: "real \<Rightarrow> float64" where
  "round64 x =
     (if x = 0 then Finite 0
      else
        (let e = max (binary_exponent x) (- 1022);
             ulp = 2 powi (e - 52);
             y = of_int (round_half_even (x / ulp)) * ulp
         in if 2 ^ 1024 \<le> \<bar>y\<bar> then (if 0 < x then Pos_inf else Neg_inf)
            else Finite y))"

definition is_negative :: "float64 \<Rightarrow> bool" where
  "is_negative a = (case a of Finite x \<Rightarrow> x < 0 | Neg_inf \<Rightarrow> True | _ \<Rightarrow> False)"

text \<open>
  Float multiplication and addition. The result of finite operands is the rounded exact
  result, which may be an infinity; no exception is raised. Infinity times zero and the
  sum of opposite infinities are NaN.
\<close>

definition float_mul :: "float64 \<Rightarrow> float64 \<Rightarrow> float64" where
  "float_mul a b =
     (case (a, b) of
        (Finite x, Finite y) \<Rightarrow> round64 (x * y)
      | _ \<Rightarrow>
          if a = NaN \<or> b = NaN \<or> a = Finite 0 \<or> b = Finite 0 then NaN
          else if is_negative a = is_negative b then Pos_inf
          else Neg_inf)"

definition float_add :: "float64 \<Rightarrow> float64 \<Rightarrow> float64" where
  "float_add a b =
     (case (a, b) of
        (Finite x, Finite y) \<Rightarrow> round64 (x + y)
      | (Finite x, _) \<Rightarrow> b
      | (_, Finite y) \<Rightarrow> a
      | _ \<Rightarrow> if a = b then a else NaN)"

text \<open>
  The conversion of an \<open>int\<close> operand in mixed arithmetic: correctly rounded, and
  \<open>OverflowError\<close> (int too large to convert to float) when the result is not finite.
\<close>

definition float_of_int :: "int \<Rightarrow> py_exception + float64" where
  "float_of_int n =
     (case round64 (of_int n) of
        Finite x \<Rightarrow> Inr (Finite x)
      | _ \<Rightarrow> Inl OverflowError)"

subsection \<open>Numbers and their arithmetic\<close>

text \<open>A number that the calculator handles is an \<open>int\<close> or a \<open>float\<close>.\<close>

datatype number = Int_value int | Float_value float64

text \<open>
  \<open>a * b\<close> and \<open>a + b\<close>: \<open>int\<close> arithmetic when both operands are \<open>int\<close>, and otherwise
  float arithmetic after the conversion of the \<open>int\<close> operand.
\<close>

definition as_float :: "number \<Rightarrow> py_exception + float64" where
  "as_float a = (case a of Int_value n \<Rightarrow> float_of_int n | Float_value x \<Rightarrow> Inr x)"

definition mul_num :: "number \<Rightarrow> number \<Rightarrow> py_exception + number" where
  "mul_num a b =
     (case (a, b) of
        (Int_value m, Int_value n) \<Rightarrow> Inr (Int_value (m * n))
      | _ \<Rightarrow>
          (case as_float a of
             Inl e \<Rightarrow> Inl e
           | Inr x \<Rightarrow>
               (case as_float b of
                  Inl e \<Rightarrow> Inl e
                | Inr y \<Rightarrow> Inr (Float_value (float_mul x y)))))"

definition add_num :: "number \<Rightarrow> number \<Rightarrow> py_exception + number" where
  "add_num a b =
     (case (a, b) of
        (Int_value m, Int_value n) \<Rightarrow> Inr (Int_value (m + n))
      | _ \<Rightarrow>
          (case as_float a of
             Inl e \<Rightarrow> Inl e
           | Inr x \<Rightarrow>
               (case as_float b of
                  Inl e \<Rightarrow> Inl e
                | Inr y \<Rightarrow> Inr (Float_value (float_add x y)))))"

text \<open>\<open>a > 0\<close>: false for a NaN.\<close>

definition gt_zero :: "number \<Rightarrow> bool" where
  "gt_zero a =
     (case a of
        Int_value n \<Rightarrow> 0 < n
      | Float_value (Finite x) \<Rightarrow> 0 < x
      | Float_value Pos_inf \<Rightarrow> True
      | _ \<Rightarrow> False)"

text \<open>
  \<open>int(a)\<close>: an \<open>int\<close> is returned as it is, a finite float is truncated toward zero,
  an infinity raises \<open>OverflowError\<close> and a NaN raises \<open>ValueError\<close>.
\<close>

definition int_py :: "number \<Rightarrow> py_exception + int" where
  "int_py a =
     (case a of
        Int_value n \<Rightarrow> Inr n
      | Float_value (Finite x) \<Rightarrow> Inr (if x < 0 then \<lceil>x\<rceil> else \<lfloor>x\<rfloor>)
      | Float_value NaN \<Rightarrow> Inl ValueError
      | Float_value _ \<Rightarrow> Inl OverflowError)"

text \<open>
  \<open>v or 0\<close> on a nullable \<open>REAL\<close> column: \<open>None\<close> and a zero float are falsy and give
  the \<open>int\<close> \<open>0\<close>, any other float gives itself.
\<close>

definition or_0_float :: "float64 option \<Rightarrow> number" where
  "or_0_float v =
     (case v of
        None \<Rightarrow> Int_value 0
      | Some x \<Rightarrow> if x = Finite 0 then Int_value 0 else Float_value x)"

text \<open>\<open>v or 0\<close> on a nullable \<open>INTEGER\<close> column.\<close>

definition or_0 :: "'a::zero option \<Rightarrow> 'a" where
  "or_0 v = (case v of None \<Rightarrow> 0 | Some x \<Rightarrow> if x = 0 then 0 else x)"

text \<open>\<open>str(i)\<close> on an int: decimal digits, with a leading minus sign when negative.\<close>

fun digits :: "nat \<Rightarrow> string" where
  "digits n = (if n < 10 then [''0123456789'' ! n]
               else digits (n div 10) @ [''0123456789'' ! (n mod 10)])"

declare digits.simps [simp del]

definition str_int :: "int \<Rightarrow> string" where
  "str_int i = (if i < 0 then CHR ''-'' # digits (nat (- i)) else digits (nat i))"

section \<open>The catalog: table \<open>products\<close>\<close>

text \<open>
  One row of table \<open>products\<close> (\<open>init_database\<close>), as the dictionary \<open>dict(row)\<close> that
  \<open>get_products\<close> returns. The columns \<open>id\<close>, \<open>name\<close>, \<open>unit\<close> and \<open>type\<close> are the fields
  \<open>prod_id\<close>, \<open>prod_name\<close>, \<open>prod_unit\<close> and \<open>prod_type\<close>; the others keep their names.
\<close>

record product =
  prod_id :: int
  code :: "string option"
  prod_name :: string
  prod_unit :: string
  price :: int
  system :: string
  prod_type :: string
  factor :: "float64 option"
  base_add :: "float64 option"
  name_pattern :: "string option"
  stops_offset :: "int option"
  category :: "string option"
  is_active :: "int option"
  min_floors :: "int option"
  max_floors :: "int option"

section \<open>Rule evaluator: quantity\<close>

text \<open>
  \<open>InvoiceCalculator._calculate_quantity\<close>. The only operation that can raise is the
  conversion of \<open>floors\<close> to a float in \<open>factor * floors\<close>.
\<close>

definition calculate_quantity :: "product \<Rightarrow> int \<Rightarrow> py_exception + number" where
  "calculate_quantity product floors =
     (let product_type = prod_type product;
          factor_v = or_0_float (factor product);
          base_add_v = or_0_float (base_add product)
      in if product_type = ''fixed'' then
           Inr (if gt_zero factor_v then factor_v else Float_value (Finite 1))
         else if product_type = ''linear'' then
           (case mul_num factor_v (Int_value floors) of
              Inl e \<Rightarrow> Inl e
            | Inr m \<Rightarrow> add_num m base_add_v)
         else if product_type = ''dynamic_name'' then
           (if gt_zero factor_v then
              (case mul_num factor_v (Int_value floors) of
                 Inl e \<Rightarrow> Inl e
               | Inr m \<Rightarrow> add_num m base_add_v)
            else Inr (Float_value (Finite 1)))
         else Inr (Float_value (Finite 1)))"

section \<open>Rule evaluator: display name\<close>

subsection \<open>\<open>string.Template.safe_substitute\<close> of the standard library\<close>

text \<open>
  The compiled pattern of \<open>Template\<close> is
  \<^verbatim>\<open>\$(?:(?P<escaped>\$)|(?P<named>ID)|{(?P<braced>ID)}|(?P<invalid>))\<close>
  with \<open>ID = (?a:[_a-z][_a-z0-9]*)\<close> under \<open>IGNORECASE\<close>. A match object is modelled by
  the text it matched (\<open>mo.group()\<close>) and its four named groups, \<open>None\<close> for a group that
  did not take part in the match.
\<close>

record match_object =
  group0 :: string
  escaped :: "string option"
  named :: "string option"
  braced :: "string option"
  invalid :: "string option"

definition id_start :: "char \<Rightarrow> bool" where
  "id_start c = (c \<in> set ''_abcdefghijklmnopqrstuvwxyzABCDEFGHIJKLMNOPQRSTUVWXYZ'')"

definition id_char :: "char \<Rightarrow> bool" where
  "id_char c = (id_start c \<or> c \<in> set ''0123456789'')"

text \<open>
  Does \<open>ID}\<close> match at the front of the string: an identifier start, then the longest run
  of identifier characters, then the closing brace.
\<close>

definition braced_here :: "string \<Rightarrow> bool" where
  "braced_here r =
     (case r of
        [] \<Rightarrow> False
      | d # _ \<Rightarrow> id_start d \<and>
          (case dropWhile id_char r of [] \<Rightarrow> False | e # _ \<Rightarrow> e = CHR ''}''))"

text \<open>
  The match that starts at a delimiter. The argument is the text after the \<open>$\<close>; the
  result is the match object and the text after the match. The alternatives are tried in
  the order of the pattern, and the last one (\<open>invalid\<close>, the empty group) always matches.
\<close>

definition match_delimiter :: "string \<Rightarrow> match_object \<times> string" where
  "match_delimiter s =
     (case s of
        [] \<Rightarrow>
          (\<lparr>group0 = ''$'', escaped = None, named = None, braced = None,
            invalid = Some []\<rparr>, s)
      | c # r \<Rightarrow>
          if c = CHR ''$'' then
            (\<lparr>group0 = ''$$'', escaped = Some ''$'', named = None, braced = None,
              invalid = None\<rparr>, r)
          else if id_start c then
            (\<lparr>group0 = CHR ''$'' # takeWhile id_char s, escaped = None,
              named = Some (takeWhile id_char s), braced = None, invalid = None\<rparr>,
             dropWhile id_char s)
          else if c = CHR ''{'' \<and> braced_here r then
            (\<lparr>group0 = ''${'' @ takeWhile id_char r @ ''}'', escaped = None,
              named = None, braced = Some (takeWhile id_char r), invalid = None\<rparr>,
             tl (dropWhile id_char r))
          else
            (\<lparr>group0 = ''$'', escaped = None, named = None, braced = None,
              invalid = Some []\<rparr>, s))"

text \<open>
  The helper \<open>convert\<close> of \<open>safe_substitute\<close>. \<open>mo.group('named') or mo.group('braced')\<close>
  is the named group unless that is \<open>None\<close> or empty. A key missing from the mapping
  (\<open>KeyError\<close>) gives back the matched text; a match with no group at all raises.
\<close>

definition convert :: "(string \<rightharpoonup> int) \<Rightarrow> match_object \<Rightarrow> py_exception + string" where
  "convert mapping mo =
     (let named_v = (case named mo of
                       None \<Rightarrow> braced mo
                     | Some n \<Rightarrow> if n = [] then braced mo else Some n)
      in case named_v of
           Some key \<Rightarrow>
             (case mapping key of
                Some v \<Rightarrow> Inr (str_int v)
              | None \<Rightarrow> Inr (group0 mo))
         | None \<Rightarrow>
             if escaped mo \<noteq> None then Inr ''$''
             else if invalid mo \<noteq> None then Inr (group0 mo)
             else Inl ValueError)"

text \<open>
  \<open>pattern.sub(convert, template)\<close>: text outside the matches is copied, each match is
  replaced by what \<open>convert\<close> returns for it, and an exception raised by \<open>convert\<close>
  ends the substitution.
\<close>

function pattern_sub ::
  "(match_object \<Rightarrow> py_exception + string) \<Rightarrow> string \<Rightarrow> py_exception + string" where
  "pattern_sub repl [] = Inr []"
| "pattern_sub repl (c # s) =
     (if c = CHR ''$'' then
        (case repl (fst (match_delimiter s)) of
           Inl e \<Rightarrow> Inl e
         | Inr out \<Rightarrow>
             (case pattern_sub repl (snd (match_delimiter s)) of
                Inl e \<Rightarrow> Inl e
              | Inr t \<Rightarrow> Inr (out @ t)))
      else
        (case pattern_sub repl s of
           Inl e \<Rightarrow> Inl e
         | Inr t \<Rightarrow> Inr (c # t)))"
  by pat_completeness auto
termination
proof (relation "measure (\<lambda>(repl, s). length s)")
  show "wf (measure (\<lambda>(repl, s). length s))" by simp
next
  fix repl :: "match_object \<Rightarrow> py_exception + string" and c :: char and s :: string
  have drop: "length (dropWhile id_char r) \<le> length r" for r
    by (rule length_dropWhile_le)
  have "length (snd (match_delimiter s)) \<le> length s"
  proof (cases s)
    case Nil
    then show ?thesis by (simp add: match_delimiter_def)
  next
    case (Cons a r)
    have "length (tl (dropWhile id_char r)) \<le> Suc (length r)"
      using drop [of r] by simp
    moreover have "length (dropWhile id_char (a # r)) \<le> Suc (length r)"
      using drop [of "a # r"] by simp
    ultimately show ?thesis
      using Cons by (simp add: match_delimiter_def del: dropWhile.simps)
  qed
  then show "((repl, snd (match_delimiter s)), (repl, c # s)) \<in> measure (\<lambda>(repl, s). length s)"
    by simp
next
  fix repl :: "match_object \<Rightarrow> py_exception + string" and c :: char and s :: string
  show "((repl, s), (repl, c # s)) \<in> measure (\<lambda>(repl, s). length s)"
    by simp
qed

declare pattern_sub.simps [simp del]

definition safe_substitute :: "string \<Rightarrow> (string \<rightharpoonup> int) \<Rightarrow> py_exception + string" where
  "safe_substitute template mapping = pattern_sub (convert mapping) template"

subsection \<open>\<open>InvoiceCalculator._get_final_name\<close>\<close>

text \<open>
  The condition \<open>product['name_pattern']\<close> is false for \<open>None\<close> and for the empty string.
  An exception of \<open>safe_substitute\<close> is caught and gives the base name.
\<close>

definition get_final_name :: "product \<Rightarrow> int \<Rightarrow> string" where
  "get_final_name product floors =
     (case name_pattern product of
        None \<Rightarrow> prod_name product
      | Some pattern \<Rightarrow>
          if prod_type product = ''dynamic_name'' \<and> pattern \<noteq> [] then
            (let stops_offset_v = or_0 (stops_offset product);
                 actual_stops = floors + stops_offset_v
             in case safe_substitute pattern
                       [''stops'' \<mapsto> actual_stops, ''floors'' \<mapsto> floors, ''N'' \<mapsto> floors] of
                  Inr final_name \<Rightarrow> final_name
                | Inl e \<Rightarrow> prod_name product)
          else prod_name product)"

section \<open>Catalog query\<close>

text \<open>
  \<open>DatabaseManager.get_products\<close> builds a \<open>WHERE\<close> clause: the condition on
  \<open>is_active\<close> always, the condition on \<open>system\<close> when \<open>system_type\<close> is truthy, the two
  conditions on the floor bounds when \<open>floors\<close> is not \<open>None\<close>. The conditions are joined
  by \<open>AND\<close>. The table is the list of its rows in the order in which the \<open>SELECT\<close>, which
  has no \<open>ORDER BY\<close>, scans them.
\<close>

datatype condition =
  Is_active_eq int
| System_eq_or_common string
| Min_floors_null_or_le int
| Max_floors_null_or_ge int

definition build_query :: "string option \<Rightarrow> int \<Rightarrow> int option \<Rightarrow> condition list" where
  "build_query system_type is_active_v floors =
     [Is_active_eq is_active_v]
     @ (case system_type of
          None \<Rightarrow> []
        | Some st \<Rightarrow> if st = [] then [] else [System_eq_or_common st])
     @ (case floors of
          None \<Rightarrow> []
        | Some n \<Rightarrow> [Min_floors_null_or_le n, Max_floors_null_or_ge n])"

text \<open>A comparison with \<open>NULL\<close> is not true, so the row is not selected.\<close>

fun holds :: "condition \<Rightarrow> product \<Rightarrow> bool" where
  "holds (Is_active_eq v) row = (is_active row = Some v)"
| "holds (System_eq_or_common st) row = (system row = st \<or> system row = ''common'')"
| "holds (Min_floors_null_or_le n) row =
     (case min_floors row of None \<Rightarrow> True | Some m \<Rightarrow> m \<le> n)"
| "holds (Max_floors_null_or_ge n) row =
     (case max_floors row of None \<Rightarrow> True | Some m \<Rightarrow> m \<ge> n)"

definition get_products ::
  "product list \<Rightarrow> string option \<Rightarrow> int \<Rightarrow> int option \<Rightarrow> product list" where
  "get_products db system_type is_active_v floors =
     filter (\<lambda>row. list_all (\<lambda>cond. holds cond row)
                      (build_query system_type is_active_v floors)) db"

section \<open>Invoice calculator\<close>

text \<open>
  An invoice line item and the invoice result, the dictionaries that \<open>calculate_invoice\<close>
  builds. The key \<open>total_price\<close> of the result is the field \<open>invoice_total_price\<close>.
\<close>

record item =
  product_id :: int
  name :: string
  unit :: string
  quantity :: number
  unit_price :: int
  total_price :: int

record invoice =
  items :: "item list"
  invoice_total_price :: int

text \<open>
  The body of the loop of \<open>calculate_invoice\<close> up to the construction of the item. The
  quantity, the product \<open>quantity * product['price']\<close> and its conversion by \<open>int\<close> can
  each raise, and the exception leaves the function.
\<close>

definition make_item :: "product \<Rightarrow> int \<Rightarrow> py_exception + item" where
  "make_item product floors =
     (case calculate_quantity product floors of
        Inl e \<Rightarrow> Inl e
      | Inr quantity_v \<Rightarrow>
          (let final_name = get_final_name product floors
           in case mul_num quantity_v (Int_value (price product)) of
                Inl e \<Rightarrow> Inl e
              | Inr amount_v \<Rightarrow>
                  (case int_py amount_v of
                     Inl e \<Rightarrow> Inl e
                   | Inr item_total \<Rightarrow>
                       Inr \<lparr>product_id = prod_id product, name = final_name,
                            unit = prod_unit product, quantity = quantity_v,
                            unit_price = price product, total_price = item_total\<rparr>)))"

text \<open>The loop over the products, with its two accumulators \<open>items\<close> and \<open>total_price\<close>.\<close>

fun invoice_loop ::
  "product list \<Rightarrow> int \<Rightarrow> item list \<Rightarrow> int \<Rightarrow> py_exception + invoice" where
  "invoice_loop [] floors items_v total_price_v =
     Inr \<lparr>items = items_v, invoice_total_price = total_price_v\<rparr>"
| "invoice_loop (product # products) floors items_v total_price_v =
     (case make_item product floors of
        Inl e \<Rightarrow> Inl e
      | Inr item_v \<Rightarrow>
          invoice_loop products floors (items_v @ [item_v])
            (total_price_v + total_price item_v))"

definition calculate_invoice ::
  "product list \<Rightarrow> int \<Rightarrow> string \<Rightarrow> py_exception + invoice" where
  "calculate_invoice db floors system_type =
     invoice_loop (get_products db (Some system_type) 1 (Some floors)) floors [] 0"

section \<open>Validation\<close>

text \<open>
  The argument of \<open>validate_floors\<close> is any Python value. \<open>isinstance(floors, int)\<close> holds
  for an \<open>int\<close> and for a \<open>bool\<close>, which is a subclass of \<open>int\<close> with \<open>True == 1\<close> and
  \<open>False == 0\<close>.
\<close>

datatype py_value = PyNone | PyBool bool | PyInt int | PyFloat float64 | PyStr string

fun as_int :: "py_value \<Rightarrow> int option" where
  "as_int (PyInt n) = Some n"
| "as_int (PyBool b) = Some (if b then 1 else 0)"
| "as_int v = None"

text \<open>The three rejection messages, as the UTF-8 bytes of the Persian text.\<close>

definition msg_not_integer :: string where
  "msg_not_integer =
     [CHR 0xD8, CHR 0xAA, CHR 0xD8, CHR 0xB9, CHR 0xD8, CHR 0xAF, CHR 0xD8, CHR 0xA7,
      CHR 0xD8, CHR 0xAF, CHR 0x20, CHR 0xD8, CHR 0xAA, CHR 0xD9, CHR 0x88, CHR 0xD9,
      CHR 0x82, CHR 0xD9, CHR 0x81, CHR 0x20, CHR 0xD8, CHR 0xA8, CHR 0xD8, CHR 0xA7,
      CHR 0xDB, CHR 0x8C, CHR 0xD8, CHR 0xAF, CHR 0x20, CHR 0xDB, CHR 0x8C, CHR 0xDA,
      CHR 0xA9, CHR 0x20, CHR 0xD8, CHR 0xB9, CHR 0xD8, CHR 0xAF, CHR 0xD8, CHR 0xAF,
      CHR 0x20, CHR 0xD8, CHR 0xB5, CHR 0xD8, CHR 0xAD, CHR 0xDB, CHR 0x8C, CHR 0xD8,
      CHR 0xAD, CHR 0x20, CHR 0xD8, CHR 0xA8, CHR 0xD8, CHR 0xA7, CHR 0xD8, CHR 0xB4,
      CHR 0xD8, CHR 0xAF]"

definition msg_below_minimum :: string where
  "msg_below_minimum =
     [CHR 0xD8, CHR 0xAA, CHR 0xD8, CHR 0xB9, CHR 0xD8, CHR 0xAF, CHR 0xD8, CHR 0xA7,
      CHR 0xD8, CHR 0xAF, CHR 0x20, CHR 0xD8, CHR 0xAA, CHR 0xD9, CHR 0x88, CHR 0xD9,
      CHR 0x82, CHR 0xD9, CHR 0x81, CHR 0x20, CHR 0xD8, CHR 0xA8, CHR 0xD8, CHR 0xA7,
      CHR 0xDB, CHR 0x8C, CHR 0xD8, CHR 0xAF, CHR 0x20, CHR 0xD8, CHR 0xAD, CHR 0xD8,
      CHR 0xAF, CHR 0xD8, CHR 0xA7, CHR 0xD9, CHR 0x82, CHR 0xD9, CHR 0x84, CHR 0x20,
      CHR 0xDB, CHR 0xB1, CHR 0x20, CHR 0xD8, CHR 0xA8, CHR 0xD8, CHR 0xA7, CHR 0xD8,
      CHR 0xB4, CHR 0xD8, CHR 0xAF]"

definition msg_above_maximum :: string where
  "msg_above_maximum =
     [CHR 0xD8, CHR 0xAA, CHR 0xD8, CHR 0xB9, CHR 0xD8, CHR 0xAF, CHR 0xD8, CHR 0xA7,
      CHR 0xD8, CHR 0xAF, CHR 0x20, CHR 0xD8, CHR 0xAA, CHR 0xD9, CHR 0x88, CHR 0xD9,
      CHR 0x82, CHR 0xD9, CHR 0x81, CHR 0x20, CHR 0xD9, CHR 0x86, CHR 0xD9, CHR 0x85,
      CHR 0xDB, CHR 0x8C, CHR 0xE2, CHR 0x80, CHR 0x8C, CHR 0xD8, CHR 0xAA, CHR 0xD9,
      CHR 0x88, CHR 0xD8, CHR 0xA7, CHR 0xD9, CHR 0x86, CHR 0xD8, CHR 0xAF, CHR 0x20,
      CHR 0xD8, CHR 0xA8, CHR 0xDB, CHR 0x8C, CHR 0xD8, CHR 0xB4, CHR 0x20, CHR 0xD8,
      CHR 0xA7, CHR 0xD8, CHR 0xB2, CHR 0x20, CHR 0xDB, CHR 0xB1, CHR 0xDB, CHR 0xB0,
      CHR 0xDB, CHR 0xB0, CHR 0x20, CHR 0xD8, CHR 0xA8, CHR 0xD8, CHR 0xA7, CHR 0xD8,
      CHR 0xB4, CHR 0xD8, CHR 0xAF]"

text \<open>\<open>InvoiceCalculator.validate_floors\<close>: the pair \<open>(is_valid, error_message)\<close>.\<close>

definition validate_floors :: "py_value \<Rightarrow> bool \<times> string" where
  "validate_floors floors =
     (case as_int floors of
        None \<Rightarrow> (False, msg_not_integer)
      | Some n \<Rightarrow>
          if n < 1 then (False, msg_below_minimum)
          else if n > 100 then (False, msg_above_maximum)
          else (True, []))"

text \<open>
  The conversation step \<open>floors\<close> of the bot (\<open>bot/handlers.py\<close>), reduced to its control
  flow. Its second argument is the outcome of \<open>int(update.message.text)\<close>, \<open>None\<close> when that
  raises \<open>ValueError\<close>. The step asks again without calling the calculator when the text is
  not a number or when validation fails, and the reply then carries the error message. An
  exception of the calculator is caught and reported.
\<close>

datatype floors_reply =
  Ask_for_number
| Ask_again string
| Show_confirmation invoice
| Report_error py_exception

definition floors_step :: "product list \<Rightarrow> string \<Rightarrow> int option \<Rightarrow> floors_reply" where
  "floors_step db system_type parsed =
     (case parsed of
        None \<Rightarrow> Ask_for_number
      | Some floors \<Rightarrow>
          (case validate_floors (PyInt floors) of
             (is_valid, error_msg) \<Rightarrow>
               if \<not> is_valid then Ask_again error_msg
               else
                 (case calculate_invoice db floors system_type of
                    Inr result \<Rightarrow> Show_confirmation result
                  | Inl e \<Rightarrow> Report_error e)))"

section \<open>The specification's reading\<close>

text \<open>
  The data model gives \<open>factor\<close>, \<open>base_add\<close> and \<open>stops_offset\<close> the default \<open>0\<close> when
  unset.
\<close>

definition rule_factor :: "product \<Rightarrow> float64" where
  "rule_factor rule = (case factor rule of None \<Rightarrow> Finite 0 | Some f \<Rightarrow> f)"

definition rule_base_add :: "product \<Rightarrow> float64" where
  "rule_base_add rule = (case base_add rule of None \<Rightarrow> Finite 0 | Some b \<Rightarrow> b)"

definition rule_stops_offset :: "product \<Rightarrow> int" where
  "rule_stops_offset rule = (case stops_offset rule of None \<Rightarrow> 0 | Some k \<Rightarrow> k)"

text \<open>\<open>factor > 0\<close> on a float.\<close>

definition float_positive :: "float64 \<Rightarrow> bool" where
  "float_positive x = (case x of Finite r \<Rightarrow> 0 < r | Pos_inf \<Rightarrow> True | _ \<Rightarrow> False)"

text \<open>A float as a number, a zero being the \<open>int\<close> \<open>0\<close> that \<open>or 0\<close> puts in its place.\<close>

definition operand :: "float64 \<Rightarrow> number" where
  "operand x = (if x = Finite 0 then Int_value 0 else Float_value x)"

text \<open>\<open>factor * floors + base_add\<close>, as Python evaluates it.\<close>

definition linear_quantity :: "float64 \<Rightarrow> int \<Rightarrow> float64 \<Rightarrow> py_exception + number" where
  "linear_quantity f floors b =
     (case mul_num (operand f) (Int_value floors) of
        Inl e \<Rightarrow> Inl e
      | Inr m \<Rightarrow> add_num m (operand b))"

text \<open>The real number that a finite number denotes.\<close>

definition number_value :: "number \<Rightarrow> real option" where
  "number_value a =
     (case a of
        Int_value n \<Rightarrow> Some (of_int n)
      | Float_value (Finite x) \<Rightarrow> Some x
      | _ \<Rightarrow> None)"

text \<open>
  The value of \<open>quantity * unit_price\<close>, as Python evaluates it, when that is a finite
  number.
\<close>

definition amount :: "number \<Rightarrow> int \<Rightarrow> real option" where
  "amount q p =
     (case mul_num q (Int_value p) of
        Inl e \<Rightarrow> None
      | Inr m \<Rightarrow> number_value m)"

text \<open>
  A rule is applicable when it is active, its system is the requested one or \<open>common\<close>, and
  the floor count lies within its bounds, an unset bound being no bound.
\<close>

definition floor_matching :: "int \<Rightarrow> product \<Rightarrow> bool" where
  "floor_matching floors rule =
     ((case min_floors rule of None \<Rightarrow> True | Some m \<Rightarrow> m \<le> floors) \<and>
      (case max_floors rule of None \<Rightarrow> True | Some m \<Rightarrow> floors \<le> m))"


text \<open>A placeholder key: a letter or underscore, then letters, digits and underscores.\<close>

definition is_identifier :: "string \<Rightarrow> bool" where
  "is_identifier key =
     (case key of [] \<Rightarrow> False | c # cs \<Rightarrow> id_start c \<and> list_all id_char cs)"

text \<open>
  The text that stands for a placeholder: the number for the three keys, and the
  placeholder as it is written for any other key.
\<close>

definition placeholder_text :: "int \<Rightarrow> int \<Rightarrow> string \<Rightarrow> string \<Rightarrow> string" where
  "placeholder_text stops floors key written =
     (if key = ''stops'' then str_int stops
      else if key = ''floors'' \<or> key = ''N'' then str_int floors
      else written)"

text \<open>
  The pattern with its placeholders \<open>$key\<close> and \<open>${key}\<close> replaced, a doubled delimiter
  written once, and every other character kept.
\<close>

function substituted :: "int \<Rightarrow> int \<Rightarrow> string \<Rightarrow> string" where
  "substituted stops floors [] = []"
| "substituted stops floors [c] = [c]"
| "substituted stops floors (c # d # r) =
     (if c \<noteq> CHR ''$'' then c # substituted stops floors (d # r)
      else if d = CHR ''$'' then CHR ''$'' # substituted stops floors r
      else if id_start d then
        placeholder_text stops floors (takeWhile id_char (d # r))
          (CHR ''$'' # takeWhile id_char (d # r))
        @ substituted stops floors (dropWhile id_char (d # r))
      else if d = CHR ''{'' \<and> braced_here r then
        placeholder_text stops floors (takeWhile id_char r)
          (''${'' @ takeWhile id_char r @ ''}'')
        @ substituted stops floors (tl (dropWhile id_char r))
      else CHR ''$'' # substituted stops floors (d # r))"
  by pat_completeness auto
termination
proof -
  have named_rest: "length (dropWhile id_char (d # r)) < Suc (Suc (length r))"
    for d :: char and r :: string
    using length_dropWhile_le [of id_char "d # r"] by (simp del: dropWhile.simps)
  have braced_rest: "length (dropWhile id_char r) - Suc 0 < Suc (Suc (length r))"
    for r :: string
    using length_dropWhile_le [of id_char r] by simp
  show ?thesis
    by (relation "measure (\<lambda>(stops, floors, s). length s)")
       (simp_all del: dropWhile.simps add: named_rest braced_rest)
qed

declare substituted.simps [simp del]

section \<open>Example rules\<close>

text \<open>
  Rules in the shape of the seed catalog (\<open>seed_data.py\<close>), with ASCII names: the
  travelling cable, a linear rule with factor 4 and offset 5; the hydraulic fluid, a fixed
  rule with factor 80; the cabin panel, a rule with a dynamic name.
\<close>

definition travel_cable :: product where
  "travel_cable =
     \<lparr>prod_id = 2, code = Some ''WIRE-002'', prod_name = ''Travel cable'',
      prod_unit = ''m'', price = 80000, system = ''common'', prod_type = ''linear'',
      factor = Some (Finite 4), base_add = Some (Finite 5), name_pattern = None, stops_offset = Some 0,
      category = Some ''wire'', is_active = Some 1, min_floors = None,
      max_floors = None\<rparr>"

definition hydraulic_fluid :: product where
  "hydraulic_fluid =
     \<lparr>prod_id = 30, code = Some ''HYD-003'', prod_name = ''Hydraulic fluid'',
      prod_unit = ''l'', price = 150000, system = ''hydraulic'', prod_type = ''fixed'',
      factor = Some (Finite 80), base_add = Some (Finite 0), name_pattern = None, stops_offset = Some 0,
      category = Some ''fluid'', is_active = Some 1, min_floors = None,
      max_floors = None\<rparr>"

definition cabin_panel :: product where
  "cabin_panel =
     \<lparr>prod_id = 12, code = Some ''CABIN-001'', prod_name = ''Cabin panel'',
      prod_unit = ''pc'', price = 800000, system = ''common'',
      prod_type = ''dynamic_name'', factor = Some (Finite 1), base_add = Some (Finite 0),
      name_pattern = Some ''X ${stops} stops'', stops_offset = Some 1,
      category = Some ''cabin'', is_active = Some 1, min_floors = None,
      max_floors = None\<rparr>"

text \<open>
  A gearless rule, a rule for ten floors and more, and a credit: a linear rule with the
  negative factor \<open>-1/2\<close> and unit price 1.
\<close>

definition gearless_motor :: product where
  "gearless_motor =
     \<lparr>prod_id = 40, code = Some ''GL-001'', prod_name = ''Gearless motor'',
      prod_unit = ''pc'', price = 9000000, system = ''gearless'', prod_type = ''fixed'',
      factor = Some (Finite 1), base_add = Some (Finite 0), name_pattern = None, stops_offset = Some 0,
      category = Some ''motor'', is_active = Some 1, min_floors = None,
      max_floors = None\<rparr>"

definition high_rise_kit :: product where
  "high_rise_kit =
     \<lparr>prod_id = 50, code = None, prod_name = ''High rise kit'', prod_unit = ''pc'',
      price = 1000, system = ''common'', prod_type = ''fixed'', factor = None,
      base_add = None, name_pattern = None, stops_offset = None, category = None,
      is_active = Some 1, min_floors = Some 10, max_floors = None\<rparr>"

definition credit :: product where
  "credit =
     \<lparr>prod_id = 60, code = None, prod_name = ''Credit'', prod_unit = ''pc'', price = 1,
      system = ''hydraulic'', prod_type = ''linear'', factor = Some (Finite (- 1 / 2)),
      base_add = Some (Finite 0), name_pattern = None, stops_offset = None, category = None,
      is_active = Some 1, min_floors = None, max_floors = None\<rparr>"

text \<open>
  A sealant sold by the kilogram: a fixed rule whose factor is the binary64 number nearest
  to \<open>0.7\<close>, at unit price 10.
\<close>

definition sealant :: product where
  "sealant =
     \<lparr>prod_id = 70, code = None, prod_name = ''Sealant'', prod_unit = ''kg'', price = 10,
      system = ''common'', prod_type = ''fixed'',
      factor = Some (Finite (3152519739159347 / 2 ^ 52)), base_add = None,
      name_pattern = None, stops_offset = None, category = None, is_active = Some 1,
      min_floors = None, max_floors = None\<rparr>"

section \<open>Properties\<close>

subsection \<open>Auxiliary facts\<close>

lemma or_0_Some [simp]: "or_0 (Some x) = x"
  by (simp add: or_0_def)

lemma or_0_None [simp]: "or_0 None = 0"
  by (simp add: or_0_def)

lemma or_0_rule_stops_offset: "or_0 (stops_offset p) = rule_stops_offset p"
  by (simp add: or_0_def rule_stops_offset_def split: option.split)

text \<open>The definitions that evaluate arithmetic on concrete numbers.\<close>

lemmas number_eval =
  round64_def binary_exponent_def round_half_even_def compute_bitlen Let_def float_mul_def
  float_add_def float_of_int_def as_float_def mul_num_def add_num_def gt_zero_def int_py_def
  or_0_float_def is_negative_def

lemma or_0_float_operand:
  "or_0_float (factor p) = operand (rule_factor p)"
  "or_0_float (base_add p) = operand (rule_base_add p)"
  by (simp_all add: or_0_float_def operand_def rule_factor_def rule_base_add_def
      split: option.split)

lemma gt_zero_operand: "gt_zero (operand f) = float_positive f"
  by (cases f) (simp_all add: gt_zero_def operand_def float_positive_def)

lemma operand_positive: "float_positive f \<Longrightarrow> operand f = Float_value f"
  by (cases f) (auto simp add: operand_def float_positive_def)

lemma round64_0: "round64 0 = Finite 0"
  by (simp add: round64_def)

lemma float_of_int_0: "float_of_int 0 = Inr (Finite 0)"
  by (simp add: float_of_int_def round64_0)

text \<open>An integer of magnitude below \<open>2^53\<close> is a binary64 number.\<close>

lemma round_half_even_of_int: "round_half_even (of_int m) = m"
  by (simp add: round_half_even_def)

lemma round64_of_int:
  assumes "\<bar>n\<bar> < 2 ^ 53"
  shows "round64 (of_int n) = Finite (of_int n)"
proof (cases "n = 0")
  case True
  then show ?thesis by (simp add: round64_def)
next
  case False
  define e where "e = bitlen \<bar>n\<bar> - 1"
  have pos: "0 < \<bar>n\<bar>" using False by simp
  have "bitlen \<bar>n\<bar> \<le> 53"
    using assms by (simp add: bitlen_le_iff_power)
  moreover have "1 \<le> bitlen \<bar>n\<bar>"
    using pos by (simp add: bitlen_alt_def)
  ultimately have e: "0 \<le> e" "e \<le> 52" by (simp_all add: e_def)
  have be: "binary_exponent (of_int n) = e"
  proof -
    have "1 \<le> \<bar>n\<bar>" using pos by linarith
    then have "(1 :: real) \<le> of_int \<bar>n\<bar>" by (simp only: of_int_1_le_iff)
    then have "(1 :: real) \<le> \<bar>of_int n\<bar>" by simp
    moreover have "\<lfloor>\<bar>of_int n :: real\<bar>\<rfloor> = \<bar>n\<bar>" by (metis floor_of_int of_int_abs)
    ultimately show ?thesis by (simp add: binary_exponent_def e_def Let_def)
  qed
  define k where "k = nat (52 - e)"
  have ulp: "(2 :: real) powi (e - 52) = 1 / 2 ^ k"
    using e by (simp add: k_def power_int_def field_simps) 
  have quo: "of_int n / (2 powi (e - 52)) = (of_int (n * 2 ^ k) :: real)"
    by (simp add: ulp)
  have y: "of_int (round_half_even (of_int n / (2 powi (e - 52)))) * (2 powi (e - 52)) = (of_int n :: real)"
    unfolding quo round_half_even_of_int by (simp add: ulp)
  have "\<bar>of_int n :: real\<bar> < 2 ^ 53"
    using assms by (metis of_int_abs of_int_less_iff of_int_numeral of_int_power)
  also have "\<dots> \<le> (2 :: real) ^ 1024" by (rule power_increasing) simp_all
  finally have small: "\<not> (2 :: real) ^ 1024 \<le> \<bar>of_int n\<bar>" by simp
  have "max e (- 1022) = e" using e by simp
  with False be y small show ?thesis
    by (simp add: round64_def Let_def)
qed

text \<open>A successful run of the loop: every product gave an item.\<close>

lemma invoice_loop_Inr:
  "invoice_loop products floors items_v total_v = Inr res \<longleftrightarrow>
     (\<exists>its. map (\<lambda>rule. make_item rule floors) products = map Inr its \<and>
            res = \<lparr>items = items_v @ its,
                   invoice_total_price = total_v + sum_list (map total_price its)\<rparr>)"
proof (induction products arbitrary: items_v total_v)
  case Nil
  show ?case by auto
next
  case (Cons p ps)
  show ?case
  proof (cases "make_item p floors")
    case (Inl e)
    then show ?thesis by (auto simp add: map_eq_Cons_conv)
  next
    case (Inr it)
    have "(\<exists>its. map (\<lambda>rule. make_item rule floors) (p # ps) = map Inr its \<and>
            res = \<lparr>items = items_v @ its,
                   invoice_total_price = total_v + sum_list (map total_price its)\<rparr>)
      \<longleftrightarrow> (\<exists>its'. map (\<lambda>rule. make_item rule floors) ps = map Inr its' \<and>
            res = \<lparr>items = (items_v @ [it]) @ its',
                   invoice_total_price =
                     (total_v + total_price it) + sum_list (map total_price its')\<rparr>)"
      (is "?L \<longleftrightarrow> ?R")
    proof
      assume ?L
      then obtain its where its: "map (\<lambda>rule. make_item rule floors) (p # ps) = map Inr its"
        and res: "res = \<lparr>items = items_v @ its,
                   invoice_total_price = total_v + sum_list (map total_price its)\<rparr>"
        by blast
      from its Inr obtain its' where "its = it # its'"
        "map (\<lambda>rule. make_item rule floors) ps = map Inr its'"
        by (cases its) auto
      with res show ?R by (auto simp add: algebra_simps)
    next
      assume ?R
      then obtain its' where "map (\<lambda>rule. make_item rule floors) ps = map Inr its'"
        and "res = \<lparr>items = (items_v @ [it]) @ its',
                   invoice_total_price =
                     (total_v + total_price it) + sum_list (map total_price its')\<rparr>"
        by blast
      with Inr have "map (\<lambda>rule. make_item rule floors) (p # ps) = map Inr (it # its') \<and>
            res = \<lparr>items = items_v @ (it # its'),
                   invoice_total_price = total_v + sum_list (map total_price (it # its'))\<rparr>"
        by (simp add: algebra_simps)
      then show ?L by blast
    qed
    with Inr Cons.IH [of "items_v @ [it]" "total_v + total_price it"] show ?thesis
      by simp
  qed
qed

lemma calculate_invoice_Inr:
  "calculate_invoice db floors st = Inr res \<longleftrightarrow>
     map (\<lambda>rule. make_item rule floors) (get_products db (Some st) 1 (Some floors))
       = map Inr (items res) \<and>
     invoice_total_price res = sum_list (map total_price (items res))"
  by (cases res) (auto simp add: calculate_invoice_def invoice_loop_Inr)

lemma make_item_Inr:
  assumes "make_item p floors = Inr it"
  shows "calculate_quantity p floors = Inr (quantity it)"
    and "product_id it = prod_id p" and "name it = get_final_name p floors"
    and "unit it = prod_unit p" and "unit_price it = price p"
    and "\<exists>m. mul_num (quantity it) (Int_value (unit_price it)) = Inr m \<and>
             int_py m = Inr (total_price it)"
  using assms by (auto simp add: make_item_def Let_def split: sum.splits)

lemma int_py_value:
  assumes "int_py m = Inr t"
  shows "\<exists>x. number_value m = Some x \<and> t = (if x < 0 then \<lceil>x\<rceil> else \<lfloor>x\<rfloor>)"
  using assms
  by (auto simp add: int_py_def number_value_def split: number.splits float64.splits)

lemma item_amount:
  assumes "make_item p floors = Inr it"
  shows "\<exists>x. amount (quantity it) (unit_price it) = Some x \<and>
             total_price it = (if x < 0 then \<lceil>x\<rceil> else \<lfloor>x\<rfloor>)"
proof -
  from make_item_Inr(6) [OF assms] obtain m
    where m: "mul_num (quantity it) (Int_value (unit_price it)) = Inr m"
      "int_py m = Inr (total_price it)"
    by blast
  from int_py_value [OF m(2)] m(1) show ?thesis
    by (simp add: amount_def)
qed

lemma map_Inr_member:
  assumes "map f ps = map Inr its" "it \<in> set its"
  shows "\<exists>p \<in> set ps. f p = Inr it"
proof -
  from assms(2) have "Inr it \<in> set (map Inr its)" by simp
  with assms(1) have "Inr it \<in> set (map f ps)" by simp
  then show ?thesis by auto
qed


lemma get_products_falsy:
  "system_type = None \<or> system_type = Some [] \<Longrightarrow>
     get_products db system_type active (Some floors) =
       filter (\<lambda>rule. is_active rule = Some active \<and> floor_matching floors rule) db"
  unfolding get_products_def build_query_def
  by (rule filter_cong [OF refl]) (auto simp add: floor_matching_def)

lemma msgs_nonempty:
  "msg_not_integer \<noteq> []" "msg_below_minimum \<noteq> []" "msg_above_maximum \<noteq> []"
  by (simp_all add: msg_not_integer_def msg_below_minimum_def msg_above_maximum_def)

lemmas item_eval =
  make_item_def calculate_quantity_def get_final_name_def number_eval

lemma credit_item:
  "make_item credit 5 =
     Inr \<lparr>product_id = 60, name = ''Credit'', unit = ''pc'',
          quantity = Float_value (Finite (- (5 / 2))), unit_price = 1, total_price = - 2\<rparr>"
  by (simp add: item_eval credit_def)

lemma travel_cable_item:
  "make_item travel_cable 5 =
     Inr \<lparr>product_id = 2, name = ''Travel cable'', unit = ''m'',
          quantity = Float_value (Finite 25), unit_price = 80000, total_price = 2000000\<rparr>"
  by (simp add: item_eval travel_cable_def)

lemma hydraulic_fluid_item:
  "make_item hydraulic_fluid 5 =
     Inr \<lparr>product_id = 30, name = ''Hydraulic fluid'', unit = ''l'',
          quantity = Float_value (Finite 80), unit_price = 150000,
          total_price = 12000000\<rparr>"
  by (simp add: item_eval hydraulic_fluid_def)

lemma sealant_item:
  "make_item sealant 5 =
     Inr \<lparr>product_id = 70, name = ''Sealant'', unit = ''kg'',
          quantity = Float_value (Finite (3152519739159347 / 2 ^ 52)), unit_price = 10,
          total_price = 7\<rparr>"
  by (simp add: item_eval sealant_def)

text \<open>
  Rounding at work: the float \<open>0.7\<close> is below \<open>0.7\<close>, and its product with 10 is a tie
  that rounds to \<open>7.0\<close>; \<open>2^53 + 1\<close> is a tie that rounds to the even \<open>2^53\<close>.
\<close>

lemma round64_examples:
  "round64 (7 / 10) = Finite (3152519739159347 / 2 ^ 52)"
  "round64 (3152519739159347 / 2 ^ 52 * 10) = Finite 7"
  "round64 (1 / 10) = Finite (3602879701896397 / 2 ^ 55)"
  "round64 (2 ^ 53 + 1) = Finite (2 ^ 53)"
  "round64 (2 ^ 53 + 3) = Finite (2 ^ 53 + 4)"
  by (simp_all add: number_eval)

text \<open>
  A negative product that rounding makes an integer, a unit price that is not a binary64
  number, and an infinite factor, on which \<open>int\<close> raises.
\<close>

lemma rounded_items:
  "make_item (credit\<lparr>factor := Some (Finite (- (3152519739159347 / 2 ^ 52))),
                     price := 10\<rparr>) 1 =
     Inr \<lparr>product_id = 60, name = ''Credit'', unit = ''pc'',
          quantity = Float_value (Finite (- (3152519739159347 / 2 ^ 52))),
          unit_price = 10, total_price = - 7\<rparr>"
  "make_item (sealant\<lparr>factor := Some (Finite 1), price := 2 ^ 53 + 1\<rparr>) 5 =
     Inr \<lparr>product_id = 70, name = ''Sealant'', unit = ''kg'',
          quantity = Float_value (Finite 1), unit_price = 2 ^ 53 + 1,
          total_price = 2 ^ 53\<rparr>"
  "make_item (sealant\<lparr>factor := Some Pos_inf\<rparr>) 5 = Inl OverflowError"
  by (simp_all add: item_eval credit_def sealant_def)

lemma query_examples:
  "get_products [travel_cable, hydraulic_fluid, credit, sealant] (Some ''hydraulic'') 1 (Some 5)
     = [travel_cable, hydraulic_fluid, credit, sealant]"
  "get_products [credit] (Some ''hydraulic'') 1 (Some 5) = [credit]"
  "get_products [travel_cable] (Some ''hydraulic'') 1 (Some 5) = [travel_cable]"
  by (simp_all add: get_products_def build_query_def travel_cable_def hydraulic_fluid_def
      credit_def sealant_def)

subsection \<open>Auxiliary facts on the template substitution\<close>

lemma not_id_start_special [simp]:
  "\<not> id_start CHR ''$''" "\<not> id_start CHR ''{''" "\<not> id_start CHR ''}''"
  "\<not> id_char CHR ''$''" "\<not> id_char CHR ''{''" "\<not> id_char CHR ''}''"
  by (simp_all add: id_start_def id_char_def)

lemma id_start_id_char: "id_start c \<Longrightarrow> id_char c"
  by (simp add: id_char_def)

lemma match_delimiter_Nil:
  "match_delimiter [] =
     (\<lparr>group0 = ''$'', escaped = None, named = None, braced = None, invalid = Some []\<rparr>, [])"
  by (simp add: match_delimiter_def)

lemma match_delimiter_escaped:
  "match_delimiter (CHR ''$'' # r) =
     (\<lparr>group0 = ''$$'', escaped = Some ''$'', named = None, braced = None, invalid = None\<rparr>,
      r)"
  by (simp add: match_delimiter_def)

lemma match_delimiter_named:
  "id_start d \<Longrightarrow>
   match_delimiter (d # r) =
     (\<lparr>group0 = CHR ''$'' # takeWhile id_char (d # r), escaped = None,
       named = Some (takeWhile id_char (d # r)), braced = None, invalid = None\<rparr>,
      dropWhile id_char (d # r))"
  by (auto simp add: match_delimiter_def)

lemma match_delimiter_braced:
  "braced_here r \<Longrightarrow>
   match_delimiter (CHR ''{'' # r) =
     (\<lparr>group0 = ''${'' @ takeWhile id_char r @ ''}'', escaped = None, named = None,
       braced = Some (takeWhile id_char r), invalid = None\<rparr>,
      tl (dropWhile id_char r))"
  by (simp add: match_delimiter_def)

lemma match_delimiter_invalid:
  "d \<noteq> CHR ''$'' \<Longrightarrow> \<not> id_start d \<Longrightarrow> \<not> (d = CHR ''{'' \<and> braced_here r) \<Longrightarrow>
   match_delimiter (d # r) =
     (\<lparr>group0 = ''$'', escaped = None, named = None, braced = None, invalid = Some []\<rparr>,
      d # r)"
  by (simp add: match_delimiter_def)

lemma convert_named:
  "key \<noteq> [] \<Longrightarrow>
   convert m \<lparr>group0 = written, escaped = None, named = Some key, braced = None,
              invalid = None\<rparr>
     = Inr (case m key of Some v \<Rightarrow> str_int v | None \<Rightarrow> written)"
  by (simp add: convert_def split: option.split)

lemma convert_braced:
  "convert m \<lparr>group0 = written, escaped = None, named = None, braced = Some key,
              invalid = None\<rparr>
     = Inr (case m key of Some v \<Rightarrow> str_int v | None \<Rightarrow> written)"
  by (simp add: convert_def split: option.split)

lemma convert_escaped:
  "convert m \<lparr>group0 = w, escaped = Some e, named = None, braced = None, invalid = None\<rparr>
     = Inr ''$''"
  by (simp add: convert_def)

lemma convert_invalid:
  "convert m \<lparr>group0 = w, escaped = None, named = None, braced = None, invalid = Some e\<rparr>
     = Inr w"
  by (simp add: convert_def)

lemma pattern_sub_dollar:
  "pattern_sub repl (CHR ''$'' # s) =
     (case repl (fst (match_delimiter s)) of
        Inl e \<Rightarrow> Inl e
      | Inr out \<Rightarrow>
          (case pattern_sub repl (snd (match_delimiter s)) of
             Inl e \<Rightarrow> Inl e
           | Inr t \<Rightarrow> Inr (out @ t)))"
  by (simp add: pattern_sub.simps)

lemma pattern_sub_other:
  "c \<noteq> CHR ''$'' \<Longrightarrow>
   pattern_sub repl (c # s) =
     (case pattern_sub repl s of Inl e \<Rightarrow> Inl e | Inr t \<Rightarrow> Inr (c # t))"
  by (simp add: pattern_sub.simps)

text \<open>Every match has a group, so \<open>convert\<close> returns and the substitution goes through.\<close>

lemma convert_match_delimiter: "\<exists>out. convert m (fst (match_delimiter s)) = Inr out"
proof (cases s)
  case Nil
  then show ?thesis by (simp add: match_delimiter_Nil convert_invalid)
next
  case (Cons d r)
  consider "d = CHR ''$''" | "id_start d" | "d = CHR ''{'' \<and> braced_here r"
    | "d \<noteq> CHR ''$''" "\<not> id_start d" "\<not> (d = CHR ''{'' \<and> braced_here r)"
    by blast
  then show ?thesis
  proof cases
    case 1
    with Cons show ?thesis by (simp add: match_delimiter_escaped convert_escaped)
  next
    case 2
    then have "takeWhile id_char (d # r) \<noteq> []" by (simp add: id_start_id_char)
    with 2 Cons show ?thesis
      by (simp add: match_delimiter_named convert_named del: takeWhile.simps)
  next
    case 3
    with Cons show ?thesis by (simp add: match_delimiter_braced convert_braced)
  next
    case 4
    with Cons show ?thesis by (simp add: match_delimiter_invalid convert_invalid)
  qed
qed

lemma pattern_sub_returns: "\<exists>out. pattern_sub (convert m) s = Inr out"
proof (induction "convert m" s rule: pattern_sub.induct)
  case 1
  show ?case by (simp add: pattern_sub.simps)
next
  case (2 c s)
  show ?case
  proof (cases "c = CHR ''$''")
    case True
    obtain out where out: "convert m (fst (match_delimiter s)) = Inr out"
      using convert_match_delimiter by blast
    with 2(1) True obtain t where "pattern_sub (convert m) (snd (match_delimiter s)) = Inr t"
      by blast
    with out True show ?thesis by (simp add: pattern_sub_dollar)
  next
    case False
    with 2(2) obtain t where "pattern_sub (convert m) s = Inr t" by blast
    with False show ?thesis by (simp add: pattern_sub_other)
  qed
qed

lemma pattern_sub_substituted:
  assumes "\<And>key. m key = (if key = ''stops'' then Some st
                 else if key = ''floors'' \<or> key = ''N'' then Some fl else None)"
  shows "pattern_sub (convert m) s = Inr (substituted st fl s)"
  using assms
proof (induction st fl s rule: substituted.induct)
  case (1 st fl)
  show ?case by (simp add: pattern_sub.simps substituted.simps)
next
  case (2 st fl c)
  show ?case
    by (cases "c = CHR ''$''")
       (simp_all add: pattern_sub_dollar pattern_sub_other pattern_sub.simps(1)
          substituted.simps match_delimiter_Nil convert_invalid)
next
  case (3 st fl c d r)
  note m = "3.prems"
  have ptext: "(case m key of Some v \<Rightarrow> str_int v | None \<Rightarrow> written) =
      placeholder_text st fl key written" for key written
    by (simp add: m placeholder_text_def)
  consider (plain) "c \<noteq> CHR ''$''"
    | (esc) "c = CHR ''$''" "d = CHR ''$''"
    | (named) "c = CHR ''$''" "d \<noteq> CHR ''$''" "id_start d"
    | (braced) "c = CHR ''$''" "d \<noteq> CHR ''$''" "\<not> id_start d"
        "d = CHR ''{'' \<and> braced_here r"
    | (invalid) "c = CHR ''$''" "d \<noteq> CHR ''$''" "\<not> id_start d"
        "\<not> (d = CHR ''{'' \<and> braced_here r)"
    by blast
  then show ?case
  proof cases
    case plain
    then have "pattern_sub (convert m) (d # r) = Inr (substituted st fl (d # r))"
      by (intro "3.IH"(1) m)
    with plain show ?thesis
      by (simp add: pattern_sub_other substituted.simps)
  next
    case esc
    then have "pattern_sub (convert m) r = Inr (substituted st fl r)"
      by (intro "3.IH"(2) m) simp_all
    with esc show ?thesis
      by (simp add: pattern_sub_dollar substituted.simps match_delimiter_escaped
          convert_escaped)
  next
    case named
    then have "takeWhile id_char (d # r) \<noteq> []" by (simp add: id_start_id_char)
    moreover have "pattern_sub (convert m) (dropWhile id_char (d # r)) =
        Inr (substituted st fl (dropWhile id_char (d # r)))"
      using named by (intro "3.IH"(3) m) simp_all
    ultimately show ?thesis
      using named
      by (simp add: pattern_sub_dollar substituted.simps match_delimiter_named
          convert_named ptext del: takeWhile.simps dropWhile.simps)
  next
    case braced
    then have "pattern_sub (convert m) (tl (dropWhile id_char r)) =
        Inr (substituted st fl (tl (dropWhile id_char r)))"
      by (intro "3.IH"(4) m) simp_all
    with braced show ?thesis
      by (simp add: pattern_sub_dollar substituted.simps match_delimiter_braced
          convert_braced ptext)
  next
    case invalid
    then have "pattern_sub (convert m) (d # r) = Inr (substituted st fl (d # r))"
      by (intro "3.IH"(5) m) simp_all
    with invalid show ?thesis
      by (auto simp add: pattern_sub_dollar substituted.simps match_delimiter_invalid
          convert_invalid)
  qed
qed


lemma get_final_name_dynamic:
  assumes "prod_type p = ''dynamic_name''" "name_pattern p = Some pattern" "pattern \<noteq> []"
  shows "get_final_name p floors = substituted (floors + rule_stops_offset p) floors pattern"
proof -
  have "safe_substitute pattern
          [''stops'' \<mapsto> floors + rule_stops_offset p, ''floors'' \<mapsto> floors, ''N'' \<mapsto> floors]
        = Inr (substituted (floors + rule_stops_offset p) floors pattern)"
    unfolding safe_substitute_def by (rule pattern_sub_substituted) simp
  with assms show ?thesis
    by (simp add: get_final_name_def Let_def or_0_rule_stops_offset)
qed

lemma get_final_name_base:
  "prod_type p \<noteq> ''dynamic_name'' \<or> name_pattern p = None \<or> name_pattern p = Some [] \<Longrightarrow>
     get_final_name p floors = prod_name p"
  by (auto simp add: get_final_name_def split: option.split)

text \<open>The substituted pattern, piece by piece.\<close>

lemma substituted_plain:
  "c \<noteq> CHR ''$'' \<Longrightarrow> substituted st fl (c # s) = c # substituted st fl s"
  by (cases s) (simp_all add: substituted.simps)

lemma substituted_text:
  "CHR ''$'' \<notin> set u \<Longrightarrow> substituted st fl (u @ w) = u @ substituted st fl w"
  by (induction u) (auto simp add: substituted_plain)

lemma identifier_run:
  assumes "is_identifier key"
  shows "takeWhile id_char (key @ CHR ''}'' # w) = key"
    and "dropWhile id_char (key @ CHR ''}'' # w) = CHR ''}'' # w"
    and "braced_here (key @ CHR ''}'' # w)"
proof -
  obtain c cs where key: "key = c # cs" "id_start c" "list_all id_char cs"
    using assms by (auto simp add: is_identifier_def split: list.splits)
  then have all: "\<forall>x \<in> set key. id_char x"
    by (simp add: id_start_id_char list_all_iff)
  then show "takeWhile id_char (key @ CHR ''}'' # w) = key"
    by (simp add: takeWhile_tail)
  from all show drop: "dropWhile id_char (key @ CHR ''}'' # w) = CHR ''}'' # w"
    by (simp add: dropWhile_append3)
  show "braced_here (key @ CHR ''}'' # w)"
    using drop key by (simp add: braced_here_def)
qed

lemma substituted_braced:
  assumes "is_identifier key"
  shows "substituted st fl (''${'' @ key @ ''}'' @ w) =
           placeholder_text st fl key (''${'' @ key @ ''}'') @ substituted st fl w"
  using identifier_run [OF assms, of w]
  by (simp add: substituted.simps)

lemma substituted_named:
  assumes "is_identifier key \<and> (case w of [] \<Rightarrow> True | c # _ \<Rightarrow> \<not> id_char c)"
  shows "substituted st fl (CHR ''$'' # key @ w) =
           placeholder_text st fl key (CHR ''$'' # key) @ substituted st fl w"
proof -
  obtain c cs where key: "key = c # cs" "id_start c" "list_all id_char cs"
    using assms by (auto simp add: is_identifier_def split: list.splits)
  then have all: "\<forall>x \<in> set key. id_char x"
    by (simp add: id_start_id_char list_all_iff)
  have rest: "dropWhile id_char w = w"
    using assms by (cases w) simp_all
  have take: "takeWhile id_char (key @ w) = key"
    using all assms by (cases w) (simp_all add: takeWhile_tail)
  have drop: "dropWhile id_char (key @ w) = w"
    using all rest by (simp add: dropWhile_append)
  have "c \<noteq> CHR ''$''"
    using key(2) by auto
  then show ?thesis
    using key(1,2) take drop by (simp add: substituted.simps del: takeWhile.simps dropWhile.simps)
qed

lemma substituted_escape:
  "substituted st fl (''$$'' @ w) = ''$'' @ substituted st fl w"
  by (simp add: substituted.simps)

subsection \<open>Line totals and the grand total\<close>

text \<open>
  Claim C1 says that every line total is \<open>floor(quantity * unit_price)\<close> and that the
  grand total is the sum of the line totals. The code computes the line total with
  \<open>int\<close>, which truncates toward zero, from the binary64 product of the quantity and the
  unit price. What holds for every catalog, floor count and system type for which the
  calculation returns: for each line item the product \<open>quantity * unit_price\<close>, as Python
  evaluates it on the fields of the item, is a finite number \<open>x\<close>, the line total is \<open>x\<close>
  truncated toward zero, which is the floor of \<open>x\<close> whenever \<open>x\<close> is not negative, and the
  grand total is the exact sum of the line totals.
\<close>

theorem line_totals_truncated_and_summed:
  "calculate_invoice db floors system_type = Inr res \<Longrightarrow>
     (\<forall>it \<in> set (items res).
        \<exists>x. amount (quantity it) (unit_price it) = Some x \<and>
            total_price it = (if x < 0 then \<lceil>x\<rceil> else \<lfloor>x\<rfloor>) \<and>
            (0 \<le> x \<longrightarrow> total_price it = \<lfloor>x\<rfloor>)) \<and>
     invoice_total_price res = sum_list (map total_price (items res))"
proof -
  assume run: "calculate_invoice db floors system_type = Inr res"
  then have made: "map (\<lambda>rule. make_item rule floors)
        (get_products db (Some system_type) 1 (Some floors)) = map Inr (items res)"
    and total: "invoice_total_price res = sum_list (map total_price (items res))"
    by (simp_all add: calculate_invoice_Inr)
  have "\<exists>x. amount (quantity it) (unit_price it) = Some x \<and>
            total_price it = (if x < 0 then \<lceil>x\<rceil> else \<lfloor>x\<rfloor>) \<and>
            (0 \<le> x \<longrightarrow> total_price it = \<lfloor>x\<rfloor>)"
    if "it \<in> set (items res)" for it
  proof -
    from map_Inr_member [OF made that] obtain p where "make_item p floors = Inr it"
      by blast
    from item_amount [OF this] show ?thesis by auto
  qed
  with total show ?thesis by blast
qed

text \<open>
  A hydraulic request for five floors over the travelling cable, the fluid, the credit and
  the sealant: the line totals are 25 * 80000, 80 * 150000, \<open>int(-2.5)\<close> and
  \<open>int(0.7 * 10)\<close>, where the binary64 product of the float \<open>0.7\<close> and 10 is \<open>7.0\<close>.
\<close>

theorem line_totals_truncated_and_summed_witness:
  "calculate_invoice [travel_cable, hydraulic_fluid, credit, sealant] 5 ''hydraulic'' =
     Inr \<lparr>items =
            [\<lparr>product_id = 2, name = ''Travel cable'', unit = ''m'',
              quantity = Float_value (Finite 25), unit_price = 80000,
              total_price = 2000000\<rparr>,
             \<lparr>product_id = 30, name = ''Hydraulic fluid'', unit = ''l'',
              quantity = Float_value (Finite 80), unit_price = 150000,
              total_price = 12000000\<rparr>,
             \<lparr>product_id = 60, name = ''Credit'', unit = ''pc'',
              quantity = Float_value (Finite (- (5 / 2))), unit_price = 1,
              total_price = - 2\<rparr>,
             \<lparr>product_id = 70, name = ''Sealant'', unit = ''kg'',
              quantity = Float_value (Finite (3152519739159347 / 2 ^ 52)),
              unit_price = 10, total_price = 7\<rparr>],
          invoice_total_price = 14000005\<rparr> \<and>
   amount (Float_value (Finite (3152519739159347 / 2 ^ 52))) 10 = Some 7 \<and>
   (14000005 :: int) = sum_list [2000000, 12000000, - 2, 7]"
proof -
  have run: "calculate_invoice [travel_cable, hydraulic_fluid, credit, sealant] 5 ''hydraulic'' =
     Inr \<lparr>items =
            [\<lparr>product_id = 2, name = ''Travel cable'', unit = ''m'',
              quantity = Float_value (Finite 25), unit_price = 80000,
              total_price = 2000000\<rparr>,
             \<lparr>product_id = 30, name = ''Hydraulic fluid'', unit = ''l'',
              quantity = Float_value (Finite 80), unit_price = 150000,
              total_price = 12000000\<rparr>,
             \<lparr>product_id = 60, name = ''Credit'', unit = ''pc'',
              quantity = Float_value (Finite (- (5 / 2))), unit_price = 1,
              total_price = - 2\<rparr>,
             \<lparr>product_id = 70, name = ''Sealant'', unit = ''kg'',
              quantity = Float_value (Finite (3152519739159347 / 2 ^ 52)),
              unit_price = 10, total_price = 7\<rparr>],
          invoice_total_price = 14000005\<rparr>"
    by (simp add: calculate_invoice_def query_examples travel_cable_item
        hydraulic_fluid_item credit_item sealant_item)
  have "amount (Float_value (Finite (3152519739159347 / 2 ^ 52))) 10 = Some 7"
    by (simp add: amount_def number_value_def number_eval)
  with run line_totals_truncated_and_summed [OF run] show ?thesis by simp
qed

text \<open>
  The claim as stated fails on the credit rule at five floors: the quantity is \<open>-2.5\<close>, the
  unit price 1, the product \<open>-2.5\<close> exactly, the line total \<open>-2\<close>, and the floor of the
  product is \<open>-3\<close>.
\<close>

theorem line_total_not_floor_counterexample:
  "calculate_invoice [credit] 5 ''hydraulic'' =
     Inr \<lparr>items =
            [\<lparr>product_id = 60, name = ''Credit'', unit = ''pc'',
              quantity = Float_value (Finite (- (5 / 2))), unit_price = 1,
              total_price = - 2\<rparr>],
          invoice_total_price = - 2\<rparr> \<and>
   amount (Float_value (Finite (- (5 / 2)))) 1 = Some (- (5 / 2)) \<and>
   \<lfloor>- (5 / 2) :: real\<rfloor> = - 3"
  by (simp add: calculate_invoice_def query_examples credit_item amount_def number_value_def
      number_eval)

subsection \<open>Which rules are evaluated\<close>



subsection \<open>Quantities\<close>

text \<open>
  Claim C3: a \<open>linear\<close> rule has quantity \<open>factor * floors + base_add\<close>; a \<open>dynamic_name\<close>
  rule has the same quantity when its factor is positive and \<open>1.0\<close> otherwise; a rule of
  any other kind than \<open>fixed\<close>, \<open>linear\<close> and \<open>dynamic_name\<close> has quantity \<open>1.0\<close>, and its
  evaluation returns. The formula is evaluated in Python's arithmetic; whenever the floor
  count, the product and the sum are binary64 numbers the quantity is exactly
  \<open>factor * floors + base_add\<close>, and that is the case for an integer factor and an integer
  offset as long as the three values stay below \<open>2^53\<close> in magnitude.
\<close>

theorem quantity_linear_dynamic_other:
  "(prod_type p = ''linear'' \<longrightarrow>
      calculate_quantity p floors =
        linear_quantity (rule_factor p) floors (rule_base_add p)) \<and>
   (prod_type p = ''dynamic_name'' \<longrightarrow>
      calculate_quantity p floors =
        (if float_positive (rule_factor p)
         then linear_quantity (rule_factor p) floors (rule_base_add p)
         else Inr (Float_value (Finite 1)))) \<and>
   (prod_type p \<noteq> ''fixed'' \<and> prod_type p \<noteq> ''linear'' \<and>
    prod_type p \<noteq> ''dynamic_name'' \<longrightarrow>
      calculate_quantity p floors = Inr (Float_value (Finite 1))) \<and>
   (round64 (of_int floors) = Finite (of_int floors) \<and>
    round64 (f * of_int floors) = Finite (f * of_int floors) \<and>
    round64 (f * of_int floors + b) = Finite (f * of_int floors + b) \<longrightarrow>
      (\<exists>q. linear_quantity (Finite f) floors (Finite b) = Inr q \<and>
           number_value q = Some (f * of_int floors + b))) \<and>
   (\<bar>floors\<bar> < 2 ^ 53 \<and> \<bar>i * floors\<bar> < 2 ^ 53 \<and> \<bar>i * floors + j\<bar> < 2 ^ 53 \<longrightarrow>
      (\<exists>q. linear_quantity (Finite (of_int i)) floors (Finite (of_int j)) = Inr q \<and>
           number_value q = Some (of_int (i * floors + j))))"
proof -
  have exact_for: "\<exists>q. linear_quantity (Finite f) n (Finite b) = Inr q \<and>
           number_value q = Some (f * of_int n + b)"
    if "round64 (of_int n) = Finite (of_int n)"
      "round64 (f * of_int n) = Finite (f * of_int n)"
      "round64 (f * of_int n + b) = Finite (f * of_int n + b)"
    for n :: int and f b :: real
    using that
    by (cases "f = 0"; cases "b = 0")
       (simp_all add: linear_quantity_def operand_def mul_num_def add_num_def as_float_def
          float_of_int_def float_mul_def float_add_def number_value_def round64_0)
  then have exact: "\<exists>q. linear_quantity (Finite f) floors (Finite b) = Inr q \<and>
           number_value q = Some (f * of_int floors + b)"
    if "round64 (of_int floors) = Finite (of_int floors)"
      "round64 (f * of_int floors) = Finite (f * of_int floors)"
      "round64 (f * of_int floors + b) = Finite (f * of_int floors + b)"
    using that by blast
  have whole: "\<exists>q. linear_quantity (Finite (of_int i)) floors (Finite (of_int j)) = Inr q \<and>
           number_value q = Some (of_int (i * floors + j))"
    if "\<bar>floors\<bar> < 2 ^ 53" "\<bar>i * floors\<bar> < 2 ^ 53" "\<bar>i * floors + j\<bar> < 2 ^ 53"
  proof -
    have "round64 (of_int floors) = Finite (of_int floors)"
      using that(1) by (rule round64_of_int)
    moreover have "round64 (of_int i * of_int floors) = Finite (of_int i * of_int floors)"
      using round64_of_int [OF that(2)] by simp
    moreover have "round64 (of_int i * of_int floors + of_int j) =
        Finite (of_int i * of_int floors + of_int j)"
      using round64_of_int [OF that(3)] by simp
    ultimately show ?thesis
      using exact_for [of floors "of_int i" "of_int j"] by simp
  qed
  show ?thesis
    using exact whole
    by (simp add: calculate_quantity_def Let_def or_0_float_operand gt_zero_operand
        linear_quantity_def)
qed

text \<open>
  Factor 4, offset 5 and five floors give 25; the cabin panel has factor 1 and quantity 5,
  and quantity 1 once its factor is 0; a rule of the unknown kind \<open>bundle\<close> has quantity 1.
\<close>

theorem quantity_linear_dynamic_other_witness:
  "prod_type travel_cable = ''linear'' \<and>
   calculate_quantity travel_cable 5 = Inr (Float_value (Finite 25)) \<and>
   prod_type cabin_panel = ''dynamic_name'' \<and>
   calculate_quantity cabin_panel 5 = Inr (Float_value (Finite 5)) \<and>
   calculate_quantity (cabin_panel\<lparr>factor := Some (Finite 0)\<rparr>) 5
     = Inr (Float_value (Finite 1)) \<and>
   calculate_quantity (travel_cable\<lparr>prod_type := ''bundle''\<rparr>) 5
     = Inr (Float_value (Finite 1)) \<and>
   round64 (4 * of_int 5 + 5) = Finite 25 \<and>
   linear_quantity (Finite 4) 5 (Finite 5) = Inr (Float_value (Finite 25))"
  using quantity_linear_dynamic_other [of travel_cable 5 4 5 4 5]
    quantity_linear_dynamic_other [of cabin_panel 5 1 0 1 0]
    quantity_linear_dynamic_other [of "cabin_panel\<lparr>factor := Some (Finite 0)\<rparr>" 5 0 0]
    quantity_linear_dynamic_other [of "travel_cable\<lparr>prod_type := ''bundle''\<rparr>" 5 4 5]
  by (simp add: travel_cable_def cabin_panel_def rule_factor_def rule_base_add_def
      float_positive_def linear_quantity_def operand_def number_eval)

text \<open>
  Claim C4: a \<open>fixed\<close> rule has quantity \<open>factor\<close> when the factor is positive and \<open>1.0\<close>
  otherwise, whatever the floor count.
\<close>

theorem quantity_fixed:
  "prod_type p = ''fixed'' \<Longrightarrow>
     calculate_quantity p floors =
       Inr (Float_value (if float_positive (rule_factor p) then rule_factor p else Finite 1))"
  by (simp add: calculate_quantity_def Let_def or_0_float_operand gt_zero_operand
      operand_positive)


text \<open>Factor 80 gives 80 at three and at 77 floors; factor 0 and an unset factor give 1.\<close>

theorem quantity_fixed_witness:
  "prod_type hydraulic_fluid = ''fixed'' \<and>
   calculate_quantity hydraulic_fluid 3 = Inr (Float_value (Finite 80)) \<and>
   calculate_quantity hydraulic_fluid 77 = Inr (Float_value (Finite 80)) \<and>
   calculate_quantity (hydraulic_fluid\<lparr>factor := Some (Finite 0)\<rparr>) 3
     = Inr (Float_value (Finite 1)) \<and>
   calculate_quantity (hydraulic_fluid\<lparr>factor := None\<rparr>) 77
     = Inr (Float_value (Finite 1))"
  using quantity_fixed [of hydraulic_fluid 3] quantity_fixed [of hydraulic_fluid 77]
    quantity_fixed [of "hydraulic_fluid\<lparr>factor := Some (Finite 0)\<rparr>" 3]
    quantity_fixed [of "hydraulic_fluid\<lparr>factor := None\<rparr>" 77]
  by (simp add: hydraulic_fluid_def rule_factor_def float_positive_def)

subsection \<open>Display names\<close>

text \<open>
  Claim C5 says that the display name of a \<open>dynamic_name\<close> rule with a non-empty pattern
  is the pattern with \<open>stops\<close> replaced by \<open>floors + stops_offset\<close> and \<open>floors\<close> and \<open>N\<close>
  replaced by \<open>floors\<close>, other placeholders being left as they are, and that every other
  rule keeps its base name. \<open>safe_substitute\<close> also writes a doubled delimiter \<open>$$\<close> as a
  single \<open>$\<close>. With that added the statement holds: the display name is the substituted
  pattern, in which text without \<open>$\<close> is kept, \<open>${stops}\<close> becomes \<open>floors + stops_offset\<close>,
  \<open>${floors}\<close> and \<open>${N}\<close> become \<open>floors\<close>, a placeholder with another key is kept as
  written, the form \<open>$key\<close> is treated like \<open>${key}\<close> when no identifier character follows
  it, and \<open>$$\<close> becomes \<open>$\<close>; a rule of another kind, or with an absent or empty pattern,
  keeps its base name.
\<close>

theorem display_name_is_substituted_pattern:
  "(prod_type p = ''dynamic_name'' \<and> name_pattern p = Some pattern \<and> pattern \<noteq> [] \<longrightarrow>
      get_final_name p floors =
        substituted (floors + rule_stops_offset p) floors pattern) \<and>
   (prod_type p \<noteq> ''dynamic_name'' \<or> name_pattern p = None \<or> name_pattern p = Some [] \<longrightarrow>
      get_final_name p floors = prod_name p) \<and>
   (CHR ''$'' \<notin> set u \<longrightarrow> substituted st fl (u @ w) = u @ substituted st fl w) \<and>
   substituted st fl (''${stops}'' @ w) = str_int st @ substituted st fl w \<and>
   substituted st fl (''${floors}'' @ w) = str_int fl @ substituted st fl w \<and>
   substituted st fl (''${N}'' @ w) = str_int fl @ substituted st fl w \<and>
   (is_identifier key \<and> key \<noteq> ''stops'' \<and> key \<noteq> ''floors'' \<and> key \<noteq> ''N'' \<longrightarrow>
      substituted st fl (''${'' @ key @ ''}'' @ w) =
        ''${'' @ key @ ''}'' @ substituted st fl w) \<and>
   (is_identifier key \<and> (case w of [] \<Rightarrow> True | c # _ \<Rightarrow> \<not> id_char c) \<longrightarrow>
      substituted st fl (CHR ''$'' # key @ w) =
        placeholder_text st fl key (CHR ''$'' # key) @ substituted st fl w) \<and>
   substituted st fl (''$$'' @ w) = ''$'' @ substituted st fl w"
proof -
  have stops: "substituted st fl (''${stops}'' @ w) = str_int st @ substituted st fl w"
    using substituted_braced [of "''stops''" st fl w]
    by (simp add: is_identifier_def id_start_def id_char_def placeholder_text_def)
  have floors: "substituted st fl (''${floors}'' @ w) = str_int fl @ substituted st fl w"
    using substituted_braced [of "''floors''" st fl w]
    by (simp add: is_identifier_def id_start_def id_char_def placeholder_text_def)
  have N: "substituted st fl (''${N}'' @ w) = str_int fl @ substituted st fl w"
    using substituted_braced [of "''N''" st fl w]
    by (simp add: is_identifier_def id_start_def id_char_def placeholder_text_def)
  have other: "substituted st fl (''${'' @ key @ ''}'' @ w) =
        ''${'' @ key @ ''}'' @ substituted st fl w"
    if "is_identifier key" "key \<noteq> ''stops''" "key \<noteq> ''floors''" "key \<noteq> ''N''"
    using that substituted_braced [of key st fl w] by (simp add: placeholder_text_def)
  show ?thesis
    using get_final_name_dynamic [of p pattern floors] get_final_name_base [of p floors]
      substituted_text [of u st fl w] stops floors N other
      substituted_named [of key w st fl] substituted_escape [of st fl w]
    by blast
qed

text \<open>
  The cabin panel at five floors, with the pattern \<open>X ${stops} stops\<close> and \<open>stops_offset\<close>
  1, is named \<open>X 6 stops\<close>; the travelling cable and a cabin panel without a pattern keep
  their base names; and the single pieces of the substitution on concrete text.
\<close>

theorem display_name_is_substituted_pattern_witness:
  "get_final_name cabin_panel 5 = ''X 6 stops'' \<and>
   get_final_name travel_cable 5 = ''Travel cable'' \<and>
   get_final_name (cabin_panel\<lparr>name_pattern := None\<rparr>) 5 = ''Cabin panel'' \<and>
   substituted 6 5 (''X '' @ ''${stops} stops'') = ''X 6 stops'' \<and>
   substituted 6 5 (''${'' @ ''stop'' @ ''}'' @ ''s'') = ''${stop}s'' \<and>
   substituted 6 5 (CHR ''$'' # ''N'' @ '' floors'') = ''5 floors''"
  using display_name_is_substituted_pattern
          [of cabin_panel "''X ${stops} stops''" 5 "''X ''" 6 5 "''${stops} stops''" "''stop''"]
        display_name_is_substituted_pattern
          [of travel_cable "''X ${stops} stops''" 5 "''X ''" 6 5 "''s''" "''stop''"]
        display_name_is_substituted_pattern
          [of "cabin_panel\<lparr>name_pattern := None\<rparr>" "[]" 5 "[]" 6 5 "'' floors''" "''N''"]
  by (simp add: cabin_panel_def travel_cable_def rule_stops_offset_def substituted.simps
      placeholder_text_def braced_here_def is_identifier_def id_start_def id_char_def
      str_int_def digits.simps)

text \<open>
  The claim as stated fails on a pattern with a doubled delimiter: \<open>Price in $$\<close> has no
  placeholder, and the display name is \<open>Price in $\<close>, not the pattern.
\<close>

theorem doubled_delimiter_counterexample:
  "get_final_name (cabin_panel\<lparr>name_pattern := Some ''Price in $$''\<rparr>) 5 = ''Price in $'' \<and>
   ''Price in $'' \<noteq> ''Price in $$''"
  by (simp add: cabin_panel_def get_final_name_def safe_substitute_def pattern_sub.simps
      match_delimiter_def convert_def)

text \<open>
  Claim C6 says that a pattern that refers to an undefined or mistyped key never raises and
  that the display name then falls back to the base name. The first half holds: for every
  pattern and every mapping \<open>safe_substitute\<close> returns a string, so the exception handler
  of \<open>_get_final_name\<close> is never entered. The second half does not: the undefined
  placeholder is left in the name as written. For a \<open>dynamic_name\<close> rule whose pattern is
  text without \<open>$\<close> around one placeholder \<open>${key}\<close> with a key other than \<open>stops\<close>,
  \<open>floors\<close> and \<open>N\<close>, the display name is the pattern itself.
\<close>

theorem undefined_key_never_raises_and_is_kept:
  "(\<exists>out. safe_substitute pattern mapping = Inr out) \<and>
   (prod_type p = ''dynamic_name'' \<and>
    name_pattern p = Some (u @ ''${'' @ key @ ''}'' @ w) \<and>
    CHR ''$'' \<notin> set u \<and> CHR ''$'' \<notin> set w \<and>
    is_identifier key \<and> key \<noteq> ''stops'' \<and> key \<noteq> ''floors'' \<and> key \<noteq> ''N'' \<longrightarrow>
      get_final_name p floors = u @ ''${'' @ key @ ''}'' @ w)"
proof -
  have returns: "\<exists>out. safe_substitute pattern mapping = Inr out"
    unfolding safe_substitute_def by (rule pattern_sub_returns)
  have kept: "get_final_name p floors = u @ ''${'' @ key @ ''}'' @ w"
    if p: "prod_type p = ''dynamic_name''"
          "name_pattern p = Some (u @ ''${'' @ key @ ''}'' @ w)"
      and lit: "CHR ''$'' \<notin> set u" "CHR ''$'' \<notin> set w"
      and key: "is_identifier key" "key \<noteq> ''stops''" "key \<noteq> ''floors''" "key \<noteq> ''N''"
  proof -
    let ?st = "floors + rule_stops_offset p"
    have "u @ ''${'' @ key @ ''}'' @ w \<noteq> []" by simp
    with p have "get_final_name p floors =
        substituted ?st floors (u @ ''${'' @ key @ ''}'' @ w)"
      by (rule get_final_name_dynamic)
    also have "\<dots> = u @ substituted ?st floors (''${'' @ key @ ''}'' @ w)"
      using lit(1) by (rule substituted_text)
    also have "substituted ?st floors (''${'' @ key @ ''}'' @ w) =
        ''${'' @ key @ ''}'' @ substituted ?st floors w"
      using key substituted_braced [of key ?st floors w] by (simp add: placeholder_text_def)
    also have "substituted ?st floors w = w"
      using lit(2) substituted_text [of w ?st floors "[]"]
      by (simp add: substituted.simps)
    finally show ?thesis .
  qed
  from returns kept show ?thesis by blast
qed

text \<open>
  A cabin panel whose pattern names the key \<open>floor\<close> instead of \<open>floors\<close>: the substitution
  returns, and the display name is the pattern.
\<close>

theorem undefined_key_never_raises_and_is_kept_witness:
  "safe_substitute ''Panel ${floor}'' [''floors'' \<mapsto> 5] = Inr ''Panel ${floor}'' \<and>
   get_final_name (cabin_panel\<lparr>name_pattern := Some (''Panel '' @ ''${'' @ ''floor'' @ ''}'' @ [])\<rparr>) 5
     = ''Panel ${floor}''"
  using undefined_key_never_raises_and_is_kept
          [of "''Panel ${floor}''" "[''floors'' \<mapsto> 5]"
              "cabin_panel\<lparr>name_pattern := Some (''Panel '' @ ''${'' @ ''floor'' @ ''}'' @ [])\<rparr>"
              "''Panel ''" "''floor''" "[]" 5]
  by (simp add: cabin_panel_def is_identifier_def id_start_def id_char_def
      safe_substitute_def pattern_sub.simps match_delimiter_def convert_def braced_here_def)

text \<open>
  The claim as stated fails on the cabin panel with the mistyped key \<open>stop\<close>: the display
  name is the pattern with the placeholder left in it, not the base name \<open>Cabin panel\<close>.
\<close>

theorem mistyped_key_counterexample:
  "get_final_name (cabin_panel\<lparr>name_pattern := Some ''X ${stop} stops''\<rparr>) 5
     = ''X ${stop} stops'' \<and>
   prod_name (cabin_panel\<lparr>name_pattern := Some ''X ${stop} stops''\<rparr>) = ''Cabin panel''"
  by (simp add: cabin_panel_def get_final_name_def safe_substitute_def pattern_sub.simps
      match_delimiter_def convert_def braced_here_def id_start_def id_char_def)

subsection \<open>Floor validation\<close>

text \<open>
  Claim C7: validation accepts exactly the integers from 1 to 100, where an integer is what
  \<open>isinstance(floors, int)\<close> accepts (so \<open>True\<close> counts as 1); every rejection carries a
  non-empty reason; 0, 101 and values that are not integers are rejected, 1 and 100 are
  accepted; and the conversation step calls the calculator only after validation has
  accepted the floor count. \<open>validate_floors\<close> is a total function: no branch raises.
\<close>

theorem validate_floors_accepts_1_to_100:
  "(fst (validate_floors v) \<longleftrightarrow> (\<exists>n. as_int v = Some n \<and> 1 \<le> n \<and> n \<le> 100)) \<and>
   (\<not> fst (validate_floors v) \<longrightarrow> snd (validate_floors v) \<noteq> []) \<and>
   (1 \<le> n \<and> n \<le> 100 \<longrightarrow> validate_floors (PyInt n) = (True, [])) \<and>
   \<not> fst (validate_floors (PyInt 0)) \<and> \<not> fst (validate_floors (PyInt 101)) \<and>
   \<not> fst (validate_floors (PyFloat x)) \<and> \<not> fst (validate_floors (PyStr s)) \<and>
   \<not> fst (validate_floors PyNone) \<and>
   fst (validate_floors (PyInt 1)) \<and> fst (validate_floors (PyInt 100)) \<and>
   floors_step db system_type (Some n) =
     (if 1 \<le> n \<and> n \<le> 100 then
        (case calculate_invoice db n system_type of
           Inr result \<Rightarrow> Show_confirmation result
         | Inl e \<Rightarrow> Report_error e)
      else Ask_again (snd (validate_floors (PyInt n))))"
  by (cases "as_int v")
     (auto simp add: validate_floors_def floors_step_def msgs_nonempty)

theorem validate_floors_accepts_1_to_100_witness:
  "validate_floors (PyInt 0) = (False, msg_below_minimum) \<and>
   validate_floors (PyInt 101) = (False, msg_above_maximum) \<and>
   validate_floors (PyFloat (Finite (5 / 2))) = (False, msg_not_integer) \<and>
   validate_floors (PyInt 1) = (True, []) \<and>
   validate_floors (PyInt 100) = (True, []) \<and>
   validate_floors (PyBool True) = (True, []) \<and>
   floors_step [travel_cable] ''hydraulic'' (Some 0) = Ask_again msg_below_minimum \<and>
   floors_step [travel_cable] ''hydraulic'' (Some 5) =
     Show_confirmation
       \<lparr>items =
          [\<lparr>product_id = 2, name = ''Travel cable'', unit = ''m'',
            quantity = Float_value (Finite 25), unit_price = 80000,
            total_price = 2000000\<rparr>],
        invoice_total_price = 2000000\<rparr>"
  using validate_floors_accepts_1_to_100 [of "PyInt 0" 0 "Finite (5 / 2)" "[]" "[travel_cable]" "''hydraulic''"]
        validate_floors_accepts_1_to_100 [of "PyInt 101" 5 "Finite (5 / 2)" "[]" "[travel_cable]" "''hydraulic''"]
        validate_floors_accepts_1_to_100 [of "PyBool True" 100 "Finite (5 / 2)" "[]" "[travel_cable]" "''hydraulic''"]
  by (simp add: validate_floors_def calculate_invoice_def query_examples travel_cable_item)

subsection \<open>Negative amounts\<close>

text \<open>
  Claim C9: when the product of quantity and unit price, as Python evaluates it, is
  negative, the line total is that product truncated toward zero; it is one more than the
  floor when the product is not an integer; it is negative as soon as the product is at
  most \<open>-1\<close>; the grand total of an invoice with this single line is the line total, with
  no clamping to zero; and there is a request whose grand total is negative.
\<close>

theorem negative_line_total_truncates_toward_zero:
  "(make_item p floors = Inr it \<and> amount (quantity it) (unit_price it) = Some x \<and> x < 0 \<longrightarrow>
      total_price it = - \<lfloor>\<bar>x\<bar>\<rfloor> \<and>
      (x \<notin> \<int> \<longrightarrow> total_price it = \<lfloor>x\<rfloor> + 1) \<and>
      (x \<le> - 1 \<longrightarrow> total_price it < 0)) \<and>
   (get_products db (Some system_type) 1 (Some floors) = [p] \<and>
    make_item p floors = Inr it \<longrightarrow>
      calculate_invoice db floors system_type =
        Inr \<lparr>items = [it], invoice_total_price = total_price it\<rparr>) \<and>
   (\<exists>db floors system_type result.
      calculate_invoice db floors system_type = Inr result \<and>
      invoice_total_price result < 0)"
proof -
  have trunc: "\<lceil>y\<rceil> = - \<lfloor>\<bar>y\<bar>\<rfloor>" if "y < 0" for y :: real
    using that by (simp add: ceiling_def)
  have above: "\<lceil>y\<rceil> = \<lfloor>y\<rfloor> + 1" if "y \<notin> \<int>" for y :: real
  proof -
    have "y \<noteq> of_int \<lfloor>y\<rfloor>" using that by (metis Ints_of_int)
    then show ?thesis by (simp add: ceiling_altdef)
  qed
  have neg: "\<lceil>y\<rceil> < 0" if "y \<le> - 1" for y :: real
  proof -
    have "\<lceil>y\<rceil> \<le> - 1" using that by (simp add: ceiling_le_iff)
    then show ?thesis by linarith
  qed
  have line: "total_price it = - \<lfloor>\<bar>x\<bar>\<rfloor> \<and>
      (x \<notin> \<int> \<longrightarrow> total_price it = \<lfloor>x\<rfloor> + 1) \<and>
      (x \<le> - 1 \<longrightarrow> total_price it < 0)"
    if "make_item p floors = Inr it" "amount (quantity it) (unit_price it) = Some x" "x < 0"
  proof -
    from item_amount [OF that(1)] that(2,3) have "total_price it = \<lceil>x\<rceil>"
      by auto
    with trunc [OF that(3)] above [of x] neg [of x] show ?thesis by simp
  qed
  have single: "calculate_invoice db floors system_type =
        Inr \<lparr>items = [it], invoice_total_price = total_price it\<rparr>"
    if "get_products db (Some system_type) 1 (Some floors) = [p]"
      "make_item p floors = Inr it"
    using that by (simp add: calculate_invoice_def)
  have "calculate_invoice [credit] 5 ''hydraulic'' =
     Inr \<lparr>items =
            [\<lparr>product_id = 60, name = ''Credit'', unit = ''pc'',
              quantity = Float_value (Finite (- (5 / 2))), unit_price = 1,
              total_price = - 2\<rparr>],
          invoice_total_price = - 2\<rparr>"
    by (simp add: calculate_invoice_def query_examples credit_item)
  then have "\<exists>db floors system_type result.
      calculate_invoice db floors system_type = Inr result \<and>
      invoice_total_price result < 0"
    by (metis invoice.select_convs(2) neg_less_0_iff_less zero_less_numeral)
  with line single show ?thesis by blast
qed

text \<open>
  The credit rule, a linear rule with factor \<open>-0.5\<close>, at five floors: \<open>int(-2.5)\<close> is \<open>-2\<close>
  and not the floor \<open>-3\<close>, and the invoice total is \<open>-2\<close>.
\<close>

theorem negative_line_total_truncates_toward_zero_witness:
  "make_item credit 5 =
     Inr \<lparr>product_id = 60, name = ''Credit'', unit = ''pc'',
          quantity = Float_value (Finite (- (5 / 2))), unit_price = 1, total_price = - 2\<rparr> \<and>
   amount (Float_value (Finite (- (5 / 2)))) 1 = Some (- (5 / 2)) \<and>
   - (5 / 2) < (0 :: real) \<and> - (5 / 2) \<notin> (\<int> :: real set) \<and>
   (- 2 :: int) = \<lfloor>- (5 / 2) :: real\<rfloor> + 1 \<and>
   calculate_invoice [credit] 5 ''hydraulic'' =
     Inr \<lparr>items =
            [\<lparr>product_id = 60, name = ''Credit'', unit = ''pc'',
              quantity = Float_value (Finite (- (5 / 2))), unit_price = 1,
              total_price = - 2\<rparr>],
          invoice_total_price = - 2\<rparr>"
proof -
  have amt: "amount (Float_value (Finite (- (5 / 2)))) 1 = Some (- (5 / 2))"
    by (simp add: amount_def number_value_def number_eval)
  have frac: "- (5 / 2) \<notin> (\<int> :: real set)"
  proof
    assume "- (5 / 2) \<in> (\<int> :: real set)"
    then obtain k :: int where "- (5 / 2) = (of_int k :: real)"
      by (auto elim: Ints_cases)
    then have "of_int (2 * k) = (of_int (- 5) :: real)" by simp
    then have "2 * k = - 5" by (simp only: of_int_eq_iff)
    then show False by presburger
  qed
  show ?thesis
    using negative_line_total_truncates_toward_zero [of credit 5
        "\<lparr>product_id = 60, name = ''Credit'', unit = ''pc'',
          quantity = Float_value (Finite (- (5 / 2))), unit_price = 1, total_price = - 2\<rparr>"
        "- (5 / 2)" "[credit]" "''hydraulic''"]
      credit_item amt frac query_examples(2)
    by simp
qed

subsection \<open>The query without a system type\<close>

text \<open>
  Claim C10: when \<open>system_type\<close> is \<open>None\<close> or the empty string, \<open>get_products\<close> applies no
  condition on the system: it returns the rows with the requested \<open>is_active\<close> value that
  match the floor count, of every system, and all rows with that \<open>is_active\<close> value when
  no floor count is given.
\<close>

theorem get_products_falsy_system_type:
  "system_type = None \<or> system_type = Some [] \<Longrightarrow>
     get_products db system_type active (Some floors) =
       filter (\<lambda>rule. is_active rule = Some active \<and> floor_matching floors rule) db \<and>
     get_products db system_type active None =
       filter (\<lambda>rule. is_active rule = Some active) db"
  by (auto simp add: get_products_falsy) (auto simp add: get_products_def build_query_def)

text \<open>
  For five floors the query returns the common, the hydraulic and the gearless row, and
  neither the rule for ten floors and more nor the inactive row.
\<close>

theorem get_products_falsy_system_type_witness:
  "map system (get_products
     [travel_cable, hydraulic_fluid, gearless_motor, high_rise_kit,
      hydraulic_fluid\<lparr>is_active := Some 0\<rparr>] None 1 (Some 5))
     = [''common'', ''hydraulic'', ''gearless''] \<and>
   map system (get_products
     [travel_cable, hydraulic_fluid, gearless_motor, high_rise_kit,
      hydraulic_fluid\<lparr>is_active := Some 0\<rparr>] (Some []) 1 (Some 5))
     = [''common'', ''hydraulic'', ''gearless'']"
  using get_products_falsy_system_type
          [of None "[travel_cable, hydraulic_fluid, gearless_motor, high_rise_kit,
                     hydraulic_fluid\<lparr>is_active := Some 0\<rparr>]" 1 5]
        get_products_falsy_system_type
          [of "Some []" "[travel_cable, hydraulic_fluid, gearless_motor, high_rise_kit,
                          hydraulic_fluid\<lparr>is_active := Some 0\<rparr>]" 1 5]
  by (simp add: floor_matching_def travel_cable_def hydraulic_fluid_def
      gearless_motor_def high_rise_kit_def)

end
